theory Spec2Isabelle
  imports Complex_Main
begin

section \<open>The PumpSwap bundle accumulator (src/bundler.ts)\<close>

subsection \<open>Data model\<close>

text \<open>
  Keys, block hashes, signatures and signing credentials are opaque to the bundler; they
  are modelled as strings. The fields of \<open>BundleConfig\<close> are TypeScript numbers: the three
  that the specification declares integers are \<open>int\<close>, the decimal \<open>tipAmount\<close> is \<open>real\<close>.
\<close>

type_synonym PublicKey = string
type_synonym Keypair = string
type_synonym Blockhash = string
type_synonym Signature = string

record BundleConfig =
  maxTransactions :: int
  tipAmount :: real
  computeUnits :: int
  computeUnitPrice :: int

text \<open>
  The transaction library has two kinds of instruction object. A \<open>TransactionInstruction\<close>
  names its program by public key; the fee-instruction builder produces these, with an
  empty list of account keys, which is therefore left out. A \<open>MessageCompiledInstruction\<close>
  lives inside a compiled message and names its program and accounts by index into the
  static account keys of that message; it has no \<open>programId\<close> property. The payload of an
  instruction keeps what it was encoded from.
\<close>

datatype InstructionData =
  SetComputeUnitLimitData int
| SetComputeUnitPriceData int
| OtherData nat

datatype TransactionInstruction =
  TransactionInstruction (programId: PublicKey) (data: InstructionData)

datatype MessageCompiledInstruction =
  MessageCompiledInstruction
    (programIdIndex: nat) (accountKeyIndexes: "nat list") (compiledData: InstructionData)

record MessageV0 =
  staticAccountKeys :: "PublicKey list"
  recentBlockhash :: Blockhash
  compiledInstructions :: "MessageCompiledInstruction list"

record VersionedTransaction =
  message :: MessageV0
  signatures :: "Signature list"

text \<open>
  Transactions are JavaScript objects: the buffer holds references, and the same object
  may be referenced from several buffer slots and by the caller. The heap maps every
  reference to the object it denotes.
\<close>

type_synonym TxRef = nat
type_synonym Heap = "TxRef \<Rightarrow> VersionedTransaction"

record PumpSwapBundler =
  config :: BundleConfig
  transactions :: "TxRef list"

text \<open>
  The two errors the class raises itself, the two JavaScript errors that the library calls
  of the enrichment raise, and the failures of the network calls.
\<close>

datatype Error =
  CapacityExceeded int
| EmptyBundle
| TypeError
| RangeError
| ExternalFailure string

subsection \<open>External collaborators\<close>

text \<open>
  The fee-instruction builder \<open>ComputeBudgetProgram\<close> of the transaction library. It
  encodes the unit limit as an unsigned 32-bit and the unit price as an unsigned 64-bit
  integer, and raises \<open>RangeError\<close> for a number outside that range.
\<close>

definition ComputeBudgetProgram_programId :: PublicKey where
  "ComputeBudgetProgram_programId = ''ComputeBudget111111111111111111111111111111''"

definition setComputeUnitLimit :: "int \<Rightarrow> Error + TransactionInstruction" where
  "setComputeUnitLimit units =
     (if 0 \<le> units \<and> units < 2 ^ 32
      then Inr (TransactionInstruction ComputeBudgetProgram_programId
                  (SetComputeUnitLimitData units))
      else Inl RangeError)"

definition setComputeUnitPrice :: "int \<Rightarrow> Error + TransactionInstruction" where
  "setComputeUnitPrice microLamports =
     (if 0 \<le> microLamports \<and> microLamports < 2 ^ 64
      then Inr (TransactionInstruction ComputeBudgetProgram_programId
                  (SetComputeUnitPriceData microLamports))
      else Inl RangeError)"

text \<open>
  \<open>new TransactionMessage({payerKey, recentBlockhash, instructions}).compileToV0Message()\<close>
  of the transaction library. JavaScript does not check what the \<open>instructions\<close> array
  holds, so an element is either an instruction object or a compiled one. The compiler
  collects the account keys, the payer first and then the program of every instruction in
  order, each key once; it reads \<open>programId\<close> of every element and calls a method on it,
  so an undefined payer key and an element without \<open>programId\<close> (a compiled instruction)
  both raise \<open>TypeError\<close>. \<open>None\<close> stands for an undefined payer key.
\<close>

datatype InstructionArg =
  Uncompiled TransactionInstruction
| AlreadyCompiled MessageCompiledInstruction

fun uncompiled :: "InstructionArg list \<Rightarrow> TransactionInstruction list option" where
  "uncompiled [] = Some []"
| "uncompiled (Uncompiled ix # rest) =
     (case uncompiled rest of None \<Rightarrow> None | Some ixs \<Rightarrow> Some (ix # ixs))"
| "uncompiled (AlreadyCompiled c # rest) = None"

definition insertKey :: "PublicKey \<Rightarrow> PublicKey list \<Rightarrow> PublicKey list" where
  "insertKey k ks = (if k \<in> set ks then ks else ks @ [k])"

definition indexOf :: "PublicKey \<Rightarrow> PublicKey list \<Rightarrow> nat" where
  "indexOf k ks = length (takeWhile (\<lambda>x. x \<noteq> k) ks)"

definition compileToV0Message ::
  "PublicKey option \<Rightarrow> Blockhash \<Rightarrow> InstructionArg list \<Rightarrow> Error + MessageV0" where
  "compileToV0Message payerKey blockhash instructions =
     (case payerKey of
        None \<Rightarrow> Inl TypeError
      | Some payer \<Rightarrow>
          (case uncompiled instructions of
             None \<Rightarrow> Inl TypeError
           | Some ixs \<Rightarrow>
               let accountKeys = fold insertKey (map programId ixs) [payer]
               in Inr \<lparr>staticAccountKeys = accountKeys,
                        recentBlockhash = blockhash,
                        compiledInstructions =
                          map (\<lambda>ix. MessageCompiledInstruction
                                      (indexOf (programId ix) accountKeys) [] (data ix))
                            ixs\<rparr>))"

text \<open>
  Modelled from the spec: the class \<open>Bundle\<close> of \<open>./jito/types\<close> is not among the sources.
  \<open>sendBundle\<close> constructs one and never uses it, and the specification gives the
  construction neither an effect nor a failure, so it is a plain value.
\<close>

datatype Bundle = Bundle "TxRef list" int

text \<open>
  The two network calls, \<open>connection.getLatestBlockhash()\<close> and \<open>sendBundle\<close> of
  \<open>./jito/bundle\<close>, are parameters of the model: \<open>External\<close> holds the answers of the
  outside world during one submission, each either a failure or a value. What the
  collaborators do to the objects handed to them is theirs to answer for: in the model
  an external call leaves the heap as it is.
\<close>

record External =
  getLatestBlockhash :: "Error + Blockhash"
  jitoSendBundle ::
    "bool \<Rightarrow> Blockhash \<Rightarrow> VersionedTransaction \<Rightarrow> PublicKey \<Rightarrow> Keypair \<Rightarrow> Error + string"

text \<open>
  Every external call a submission makes is logged, with its arguments. The transaction
  argument is logged both as the reference passed and as the object it denotes when the
  call is made.
\<close>

datatype Call =
  GetLatestBlockhashCall
| SendBundleCall bool Blockhash TxRef VersionedTransaction PublicKey Keypair

subsection \<open>Operations of \<open>PumpSwapBundler\<close>\<close>

definition constructor :: "BundleConfig \<Rightarrow> PumpSwapBundler" where
  "constructor cfg = \<lparr>config = cfg, transactions = []\<rparr>"

definition addTransaction :: "TxRef \<Rightarrow> PumpSwapBundler \<Rightarrow> Error + PumpSwapBundler" where
  "addTransaction transaction b =
     (if int (length (transactions b)) \<ge> maxTransactions (config b)
      then Inl (CapacityExceeded (maxTransactions (config b)))
      else Inr (b\<lparr>transactions := transactions b @ [transaction]\<rparr>))"

text \<open>\<open>staticAccountKeys[0]\<close>: undefined on an empty array.\<close>

definition payerOf :: "MessageV0 \<Rightarrow> PublicKey option" where
  "payerOf m = (case staticAccountKeys m of [] \<Rightarrow> None | k # ks \<Rightarrow> Some k)"

text \<open>
  The local array \<open>computeBudgetIx\<close>: the limit is built first, then the price, and a
  failure of either leaves the method before it has read the transaction.
\<close>

definition computeBudgetIx :: "BundleConfig \<Rightarrow> Error + TransactionInstruction list" where
  "computeBudgetIx cfg =
     (case setComputeUnitLimit (computeUnits cfg) of
        Inl e \<Rightarrow> Inl e
      | Inr limitIx \<Rightarrow>
          (case setComputeUnitPrice (computeUnitPrice cfg) of
             Inl e \<Rightarrow> Inl e
           | Inr priceIx \<Rightarrow> Inr [limitIx, priceIx]))"

text \<open>
  \<open>addComputeBudgetInstructions\<close> hands the compiler the two built instructions followed
  by the spread \<open>compiledInstructions\<close> of the old message, which are compiled
  instructions. Only when the compiler returns is the object's message replaced.
\<close>

definition addComputeBudgetInstructions ::
  "BundleConfig \<Rightarrow> TxRef \<Rightarrow> Heap \<Rightarrow> Error + Heap" where
  "addComputeBudgetInstructions cfg transaction h =
     (case computeBudgetIx cfg of
        Inl e \<Rightarrow> Inl e
      | Inr budgetIx \<Rightarrow>
          (case compileToV0Message
                  (payerOf (message (h transaction)))
                  (recentBlockhash (message (h transaction)))
                  (map Uncompiled budgetIx
                     @ map AlreadyCompiled (compiledInstructions (message (h transaction)))) of
             Inl e \<Rightarrow> Inl e
           | Inr messageV0 \<Rightarrow> Inr (h(transaction := (h transaction)\<lparr>message := messageV0\<rparr>))))"

text \<open>
  \<open>this.transactions.forEach(tx => this.addComputeBudgetInstructions(tx))\<close>: the objects
  are enriched from left to right, and the first failure ends the loop with the objects
  enriched so far left as they are. The result is the heap reached and the error that
  ended the loop, if any.
\<close>

fun enrichEach :: "BundleConfig \<Rightarrow> TxRef list \<Rightarrow> Heap \<Rightarrow> Heap \<times> Error option" where
  "enrichEach cfg [] h = (h, None)"
| "enrichEach cfg (transaction # rest) h =
     (case addComputeBudgetInstructions cfg transaction h of
        Inl e \<Rightarrow> (h, Some e)
      | Inr h' \<Rightarrow> enrichEach cfg rest h')"

record SubmitResult =
  bundler :: PumpSwapBundler
  heap :: Heap
  outcome :: "Error + string"
  calls :: "Call list"

text \<open>
  \<open>sendBundle\<close>. A failure of the enrichment leaves the method before any network call;
  a failure of either network call leaves it after the enrichment and before the buffer
  is cleared.
\<close>

definition sendBundle ::
  "External \<Rightarrow> PublicKey \<Rightarrow> Keypair \<Rightarrow> PumpSwapBundler \<Rightarrow> Heap \<Rightarrow> SubmitResult" where
  "sendBundle ext poolId signer b h =
     (if length (transactions b) = 0
      then \<lparr>bundler = b, heap = h, outcome = Inl EmptyBundle, calls = []\<rparr>
      else
        (case enrichEach (config b) (transactions b) h of
           (h', Some e) \<Rightarrow> \<lparr>bundler = b, heap = h', outcome = Inl e, calls = []\<rparr>
         | (h', None) \<Rightarrow>
             (let bundle = Bundle (transactions b) (maxTransactions (config b))
              in case getLatestBlockhash ext of
                   Inl e \<Rightarrow>
                     \<lparr>bundler = b, heap = h', outcome = Inl e,
                      calls = [GetLatestBlockhashCall]\<rparr>
                 | Inr latestBlockhash \<Rightarrow>
                     (let sent = SendBundleCall False latestBlockhash (transactions b ! 0)
                                   (h' (transactions b ! 0)) poolId signer
                      in (case jitoSendBundle ext False latestBlockhash
                                 (h' (transactions b ! 0)) poolId signer of
                            Inl e \<Rightarrow>
                              \<lparr>bundler = b, heap = h', outcome = Inl e,
                               calls = [GetLatestBlockhashCall, sent]\<rparr>
                          | Inr uuid \<Rightarrow>
                              \<lparr>bundler = b\<lparr>transactions := []\<rparr>, heap = h',
                               outcome = Inr uuid,
                               calls = [GetLatestBlockhashCall, sent]\<rparr>)))))"

definition getSize :: "PumpSwapBundler \<Rightarrow> nat" where
  "getSize b = length (transactions b)"

definition clear :: "PumpSwapBundler \<Rightarrow> PumpSwapBundler" where
  "clear b = b\<lparr>transactions := []\<rparr>"

subsection \<open>Sequences of operations\<close>

text \<open>
  A caller drives the accumulator through its four public methods. \<open>step\<close> performs one
  call on the accumulator and the heap and returns what the caller observes; \<open>run\<close>
  performs a sequence of calls, a failed call leaving the caller free to go on.
\<close>

datatype Op =
  Append TxRef
| Submit External PublicKey Keypair
| Size
| Reset

datatype Observation =
  Returned
| ReturnedSize nat
| ReturnedUuid string
| Thrown Error

fun step :: "Op \<Rightarrow> PumpSwapBundler \<times> Heap \<Rightarrow> (PumpSwapBundler \<times> Heap) \<times> Observation" where
  "step (Append transaction) (b, h) =
     (case addTransaction transaction b of
        Inl e \<Rightarrow> ((b, h), Thrown e)
      | Inr b' \<Rightarrow> ((b', h), Returned))"
| "step (Submit ext poolId signer) (b, h) =
     (let r = sendBundle ext poolId signer b h
      in ((bundler r, heap r),
          (case outcome r of Inl e \<Rightarrow> Thrown e | Inr uuid \<Rightarrow> ReturnedUuid uuid)))"
| "step Size (b, h) = ((b, h), ReturnedSize (getSize b))"
| "step Reset (b, h) = ((clear b, h), Returned)"

fun run ::
  "Op list \<Rightarrow> PumpSwapBundler \<times> Heap \<Rightarrow> (PumpSwapBundler \<times> Heap) \<times> Observation list" where
  "run [] s = (s, [])"
| "run (op # ops) s =
     (let (s', ob) = step op s; (s'', obs) = run ops s' in (s'', ob # obs))"

text \<open>Successive appends, stopping at the first one that fails.\<close>

fun appendAll :: "TxRef list \<Rightarrow> PumpSwapBundler \<Rightarrow> Error + PumpSwapBundler" where
  "appendAll [] b = Inr b"
| "appendAll (transaction # rest) b =
     (case addTransaction transaction b of
        Inl e \<Rightarrow> Inl e
      | Inr b' \<Rightarrow> appendAll rest b')"

text \<open>
  Successive submissions with the same arguments, one answer of the outside world for
  each, as long as each of them fails: \<open>None\<close> as soon as one succeeds.
\<close>

fun failedSubmits ::
  "External list \<Rightarrow> PublicKey \<Rightarrow> Keypair \<Rightarrow> PumpSwapBundler \<times> Heap \<Rightarrow>
   (PumpSwapBundler \<times> Heap) option" where
  "failedSubmits [] poolId signer s = Some s"
| "failedSubmits (ext # exts) poolId signer (b, h) =
     (let r = sendBundle ext poolId signer b h
      in case outcome r of
           Inl e \<Rightarrow> failedSubmits exts poolId signer (bundler r, heap r)
         | Inr uuid \<Rightarrow> None)"

subsection \<open>Concrete inputs\<close>

text \<open>
  The configuration of the example in the source file; two transaction objects that carry
  no instruction yet and one that carries an instruction; a heap holding the second at
  reference 1, the third at reference 2 and the first everywhere else; and two answers of
  the outside world: a relay that accepts the bundle and a relay that rejects it.
\<close>

definition exampleConfig :: BundleConfig where
  "exampleConfig =
     \<lparr>maxTransactions = 4, tipAmount = 1 / 10000, computeUnits = 300000,
      computeUnitPrice = 696969\<rparr>"

definition exampleTransaction :: VersionedTransaction where
  "exampleTransaction =
     \<lparr>message = \<lparr>staticAccountKeys = [''payer'', ''pool''], recentBlockhash = ''hash0'',
                 compiledInstructions = []\<rparr>,
      signatures = [''sig'']\<rparr>"

definition secondTransaction :: VersionedTransaction where
  "secondTransaction =
     \<lparr>message = \<lparr>staticAccountKeys = [''other''], recentBlockhash = ''hash0'',
                 compiledInstructions = []\<rparr>,
      signatures = []\<rparr>"

definition carryingTransaction :: VersionedTransaction where
  "carryingTransaction =
     \<lparr>message = \<lparr>staticAccountKeys = [''payer'', ''pool''], recentBlockhash = ''hash0'',
                 compiledInstructions = [MessageCompiledInstruction 1 [0] (OtherData 7)]\<rparr>,
      signatures = [''sig'']\<rparr>"

definition exampleHeap :: Heap where
  "exampleHeap = (\<lambda>r. exampleTransaction)(1 := secondTransaction, 2 := carryingTransaction)"

definition relayAccepts :: External where
  "relayAccepts =
     \<lparr>getLatestBlockhash = Inr ''hash1'',
      jitoSendBundle = (\<lambda>isSell blockhash transaction poolId signer. Inr ''uuid-1'')\<rparr>"

definition relayRejects :: External where
  "relayRejects =
     \<lparr>getLatestBlockhash = Inr ''hash1'',
      jitoSendBundle =
        (\<lambda>isSell blockhash transaction poolId signer. Inl (ExternalFailure ''rejected''))\<rparr>"


text \<open>
  A buffer of two distinct objects, a buffer holding the same object twice, and a buffer
  holding the object that carries an instruction.
\<close>

definition twoBuffered :: PumpSwapBundler where
  "twoBuffered = \<lparr>config = exampleConfig, transactions = [0, 1]\<rparr>"

definition sameTwice :: PumpSwapBundler where
  "sameTwice = \<lparr>config = exampleConfig, transactions = [0, 0]\<rparr>"

definition oneCarrying :: PumpSwapBundler where
  "oneCarrying = \<lparr>config = exampleConfig, transactions = [2]\<rparr>"

section \<open>Properties of the operations\<close>

subsection \<open>What the enrichment does to the heap\<close>

lemmas example_defs =
  exampleConfig_def exampleTransaction_def secondTransaction_def carryingTransaction_def
  exampleHeap_def relayAccepts_def relayRejects_def twoBuffered_def sameTwice_def
  oneCarrying_def

lemmas enrich_defs =
  addComputeBudgetInstructions_def computeBudgetIx_def setComputeUnitLimit_def
  setComputeUnitPrice_def compileToV0Message_def payerOf_def insertKey_def indexOf_def
  ComputeBudgetProgram_programId_def

lemma uncompiled_built: "uncompiled (map Uncompiled ixs) = Some ixs"
  by (induction ixs) simp_all

lemma uncompiled_spread:
  "uncompiled (map Uncompiled ixs @ map AlreadyCompiled cs) =
     (if cs = [] then Some ixs else None)"
proof (induction ixs)
  case Nil
  show ?case by (cases cs) simp_all
next
  case (Cons ix ixs)
  then show ?case by simp
qed

lemma computeBudgetIx_value:
  "computeBudgetIx cfg = Inr ixs \<Longrightarrow>
     ixs = [TransactionInstruction ComputeBudgetProgram_programId
              (SetComputeUnitLimitData (computeUnits cfg)),
            TransactionInstruction ComputeBudgetProgram_programId
              (SetComputeUnitPriceData (computeUnitPrice cfg))]"
  by (auto simp: computeBudgetIx_def setComputeUnitLimit_def setComputeUnitPrice_def
           split: if_splits)

lemma payerOf_insertKey: "payerOf (m\<lparr>staticAccountKeys := insertKey k (p # ks)\<rparr>) = Some p"
  by (simp add: payerOf_def insertKey_def)

lemma addComputeBudgetInstructions_cases:
  assumes "addComputeBudgetInstructions cfg x h = Inr hx"
  obtains ixs payer m where
    "computeBudgetIx cfg = Inr ixs"
    "payerOf (message (h x)) = Some payer"
    "compiledInstructions (message (h x)) = []"
    "compileToV0Message (Some payer) (recentBlockhash (message (h x))) (map Uncompiled ixs) = Inr m"
    "hx = h(x := (h x)\<lparr>message := m\<rparr>)"
proof -
  from assms obtain ixs where ixs: "computeBudgetIx cfg = Inr ixs"
    by (cases "computeBudgetIx cfg") (simp_all add: addComputeBudgetInstructions_def)
  from assms ixs obtain m where m:
    "compileToV0Message (payerOf (message (h x))) (recentBlockhash (message (h x)))
       (map Uncompiled ixs @ map AlreadyCompiled (compiledInstructions (message (h x)))) = Inr m"
    "hx = h(x := (h x)\<lparr>message := m\<rparr>)"
    by (auto simp: addComputeBudgetInstructions_def split: sum.splits)
  from m(1) obtain payer where p: "payerOf (message (h x)) = Some payer"
    by (cases "payerOf (message (h x))") (simp_all add: compileToV0Message_def)
  from m(1) p have e: "compiledInstructions (message (h x)) = []"
    by (auto simp: compileToV0Message_def uncompiled_spread split: if_splits)
  show ?thesis
    using that [OF ixs p e _ m(2)] m(1) p e by simp
qed

lemma addComputeBudgetInstructions_success:
  assumes "addComputeBudgetInstructions cfg x h = Inr hx"
  shows "compiledInstructions (message (h x)) = []"
    and "map compiledData (compiledInstructions (message (hx x))) =
           [SetComputeUnitLimitData (computeUnits cfg),
            SetComputeUnitPriceData (computeUnitPrice cfg)]"
    and "payerOf (message (hx x)) = payerOf (message (h x))"
    and "payerOf (message (h x)) \<noteq> None"
    and "recentBlockhash (message (hx x)) = recentBlockhash (message (h x))"
    and "signatures (hx r) = signatures (h r)"
    and "r \<noteq> x \<Longrightarrow> hx r = h r"
proof -
  from assms obtain ixs payer m where c:
    "computeBudgetIx cfg = Inr ixs"
    "payerOf (message (h x)) = Some payer"
    "compiledInstructions (message (h x)) = []"
    "compileToV0Message (Some payer) (recentBlockhash (message (h x))) (map Uncompiled ixs) = Inr m"
    "hx = h(x := (h x)\<lparr>message := m\<rparr>)"
    by (rule addComputeBudgetInstructions_cases)
  note v = computeBudgetIx_value [OF c(1)]
  from c(4) have m: "m = \<lparr>staticAccountKeys = fold insertKey (map programId ixs) [payer],
                        recentBlockhash = recentBlockhash (message (h x)),
                        compiledInstructions =
                          map (\<lambda>ix. MessageCompiledInstruction
                                      (indexOf (programId ix)
                                         (fold insertKey (map programId ixs) [payer])) []
                                      (data ix))
                            ixs\<rparr>"
    by (simp add: compileToV0Message_def uncompiled_built Let_def)
  show "compiledInstructions (message (h x)) = []" by (rule c(3))
  show "map compiledData (compiledInstructions (message (hx x))) =
           [SetComputeUnitLimitData (computeUnits cfg),
            SetComputeUnitPriceData (computeUnitPrice cfg)]"
    by (simp add: c(5) m v)
  have "payerOf (message (hx x)) = Some payer"
    by (simp add: c(5) m v payerOf_def insertKey_def)
  then show "payerOf (message (hx x)) = payerOf (message (h x))"
    by (simp add: c(2))
  show "payerOf (message (h x)) \<noteq> None" by (simp add: c(2))
  show "recentBlockhash (message (hx x)) = recentBlockhash (message (h x))"
    by (simp add: c(5) m)
  show "signatures (hx r) = signatures (h r)"
    by (simp add: c(5))
  show "r \<noteq> x \<Longrightarrow> hx r = h r"
    by (simp add: c(5))
qed

lemma enrichEach_signatures:
  "signatures (fst (enrichEach cfg txs h) r) = signatures (h r)"
proof (induction txs arbitrary: h)
  case Nil
  show ?case by simp
next
  case (Cons tx txs)
  show ?case
  proof (cases "addComputeBudgetInstructions cfg tx h")
    case (Inl e)
    then show ?thesis by simp
  next
    case (Inr hx)
    then show ?thesis
      using Cons.IH [of hx] addComputeBudgetInstructions_success(6) [OF Inr, of r] by simp
  qed
qed

lemma enrichEach_untouched:
  "r \<notin> set txs \<Longrightarrow> fst (enrichEach cfg txs h) r = h r"
proof (induction txs arbitrary: h)
  case Nil
  show ?case by simp
next
  case (Cons tx txs)
  show ?case
  proof (cases "addComputeBudgetInstructions cfg tx h")
    case (Inl e)
    then show ?thesis by simp
  next
    case (Inr hx)
    then show ?thesis
      using Cons.IH [of hx] Cons.prems addComputeBudgetInstructions_success(7) [OF Inr, of r]
      by simp
  qed
qed

lemma enrichEach_blockhash:
  "recentBlockhash (message (fst (enrichEach cfg txs h) r)) = recentBlockhash (message (h r))"
proof (induction txs arbitrary: h)
  case Nil
  show ?case by simp
next
  case (Cons tx txs)
  show ?case
  proof (cases "addComputeBudgetInstructions cfg tx h")
    case (Inl e)
    then show ?thesis by simp
  next
    case (Inr hx)
    have "recentBlockhash (message (hx r)) = recentBlockhash (message (h r))"
      using addComputeBudgetInstructions_success(5) [OF Inr]
        addComputeBudgetInstructions_success(7) [OF Inr, of r]
      by (cases "r = tx") simp_all
    then show ?thesis
      using Cons.IH [of hx] Inr by simp
  qed
qed

text \<open>What a completed enrichment has done to every buffered object.\<close>

lemma enrichEach_completed:
  "enrichEach cfg txs h = (h', None) \<Longrightarrow>
     distinct txs \<and>
     (\<forall>x \<in> set txs.
        compiledInstructions (message (h x)) = [] \<and>
        map compiledData (compiledInstructions (message (h' x))) =
          [SetComputeUnitLimitData (computeUnits cfg),
           SetComputeUnitPriceData (computeUnitPrice cfg)] \<and>
        payerOf (message (h' x)) = payerOf (message (h x)))"
proof (induction txs arbitrary: h)
  case Nil
  show ?case by simp
next
  case (Cons tx txs)
  from Cons.prems obtain hx where hx: "addComputeBudgetInstructions cfg tx h = Inr hx"
    by (cases "addComputeBudgetInstructions cfg tx h") simp_all
  with Cons.prems have rest: "enrichEach cfg txs hx = (h', None)"
    by simp
  note ih = Cons.IH [OF rest]
  note s = addComputeBudgetInstructions_success [OF hx]
  have fresh: "tx \<notin> set txs"
  proof
    assume "tx \<in> set txs"
    with ih have "compiledInstructions (message (hx tx)) = []" by simp
    with s(2) show False by simp
  qed
  have same: "h' tx = hx tx"
    using enrichEach_untouched [OF fresh, of cfg hx] rest by simp
  have other: "hx x = h x" if "x \<in> set txs" for x
    using that fresh s(7) [of x] by auto
  show ?case
    using ih fresh same other s(1-3) by simp
qed

lemma addComputeBudgetInstructions_tip:
  "addComputeBudgetInstructions (cfg\<lparr>tipAmount := t\<rparr>) x h =
     addComputeBudgetInstructions cfg x h"
  by (simp add: addComputeBudgetInstructions_def computeBudgetIx_def split: sum.splits)

lemma enrichEach_tip:
  "enrichEach (cfg\<lparr>tipAmount := t\<rparr>) txs h = enrichEach cfg txs h"
proof (induction txs arbitrary: h)
  case Nil
  show ?case by simp
next
  case (Cons tx txs)
  show ?case
    by (cases "addComputeBudgetInstructions cfg tx h")
       (simp_all add: addComputeBudgetInstructions_tip Cons.IH)
qed

subsection \<open>What a submission does\<close>

lemma sendBundle_heap:
  "heap (sendBundle ext poolId signer b h) = fst (enrichEach (config b) (transactions b) h)"
  by (simp add: sendBundle_def Let_def split: sum.splits prod.splits option.splits)

lemma sendBundle_config:
  "config (bundler (sendBundle ext poolId signer b h)) = config b"
  by (simp add: sendBundle_def Let_def split: sum.splits prod.splits option.splits)

lemma sendBundle_length:
  "length (transactions (bundler (sendBundle ext poolId signer b h))) \<le> length (transactions b)"
  by (simp add: sendBundle_def Let_def split: sum.splits prod.splits option.splits)

lemma sendBundle_failed:
  "outcome (sendBundle ext poolId signer b h) = Inl e \<Longrightarrow>
     bundler (sendBundle ext poolId signer b h) = b"
  by (auto simp: sendBundle_def Let_def split: sum.splits prod.splits option.splits if_splits)

lemma sendBundle_succeeded:
  "outcome (sendBundle ext poolId signer b h) = Inr uuid \<Longrightarrow>
     transactions (bundler (sendBundle ext poolId signer b h)) = []"
  by (auto simp: sendBundle_def Let_def split: sum.splits prod.splits option.splits if_splits)

lemma nth_0_hd: "xs \<noteq> [] \<Longrightarrow> xs ! 0 = hd xs"
  by (cases xs) simp_all



lemma sendBundle_relay_called:
  "transactions b \<noteq> [] \<Longrightarrow> enrichEach (config b) (transactions b) h = (h', None) \<Longrightarrow>
   getLatestBlockhash ext = Inr latestBlockhash \<Longrightarrow>
     outcome (sendBundle ext poolId signer b h) =
       jitoSendBundle ext False latestBlockhash (h' (hd (transactions b))) poolId signer \<and>
     calls (sendBundle ext poolId signer b h) =
       [GetLatestBlockhashCall,
        SendBundleCall False latestBlockhash (hd (transactions b))
          (h' (hd (transactions b))) poolId signer] \<and>
     heap (sendBundle ext poolId signer b h) = h'"
  by (simp add: sendBundle_def Let_def nth_0_hd split: sum.splits)

subsection \<open>Sequences of calls\<close>

lemma appendAll_within_capacity:
  "int (length (transactions b)) + int (length txs) \<le> maxTransactions (config b) \<Longrightarrow>
     appendAll txs b = Inr (b\<lparr>transactions := transactions b @ txs\<rparr>)"
proof (induction txs arbitrary: b)
  case Nil
  show ?case by simp
next
  case (Cons tx txs)
  have room: "\<not> maxTransactions (config b) \<le> int (length (transactions b))"
    using Cons.prems by simp
  have step: "addTransaction tx b = Inr (b\<lparr>transactions := transactions b @ [tx]\<rparr>)"
    using room by (simp add: addTransaction_def)
  have "appendAll txs (b\<lparr>transactions := transactions b @ [tx]\<rparr>) =
          Inr (b\<lparr>transactions := (transactions b @ [tx]) @ txs\<rparr>)"
    using Cons.IH [of "b\<lparr>transactions := transactions b @ [tx]\<rparr>"] Cons.prems by simp
  then show ?case
    using step by simp
qed

lemma step_signatures:
  "signatures (snd (fst (step op (b, h))) r) = signatures (h r)"
  by (cases op) (simp_all add: Let_def sendBundle_heap enrichEach_signatures split: sum.splits)

lemma run_signatures:
  "signatures (snd (fst (run ops s)) r) = signatures (snd s r)"
proof (induction ops arbitrary: s)
  case Nil
  show ?case by simp
next
  case (Cons op ops)
  obtain b h where s: "s = (b, h)" by (cases s)
  show ?case
    using Cons.IH [of "fst (step op (b, h))"] step_signatures [of op b h r]
    by (simp add: s case_prod_beta)
qed

lemma step_config: "config (fst (fst (step op (b, h)))) = config b"
  by (cases op) (simp_all add: Let_def sendBundle_config addTransaction_def clear_def)

lemma step_bound:
  "int (length (transactions b)) \<le> maxTransactions (config b) \<Longrightarrow>
     int (length (transactions (fst (fst (step op (b, h)))))) \<le> maxTransactions (config b)"
proof (cases op)
  case (Append tx)
  assume "int (length (transactions b)) \<le> maxTransactions (config b)"
  then show ?thesis
    by (simp add: Append addTransaction_def)
next
  case (Submit ext poolId signer)
  assume "int (length (transactions b)) \<le> maxTransactions (config b)"
  then show ?thesis
    using sendBundle_length [of ext poolId signer b h]
    by (simp add: Submit Let_def)
next
  case Size
  assume "int (length (transactions b)) \<le> maxTransactions (config b)"
  then show ?thesis by (simp add: Size)
next
  case Reset
  assume "int (length (transactions b)) \<le> maxTransactions (config b)"
  then show ?thesis by (simp add: Reset clear_def)
qed

lemma run_bound:
  "int (length (transactions (fst s))) \<le> maxTransactions (config (fst s)) \<Longrightarrow>
     int (length (transactions (fst (fst (run ops s))))) \<le> maxTransactions (config (fst s)) \<and>
     config (fst (fst (run ops s))) = config (fst s)"
proof (induction ops arbitrary: s)
  case Nil
  then show ?case by simp
next
  case (Cons op ops)
  obtain b h where s: "s = (b, h)" by (cases s)
  have b: "int (length (transactions (fst (fst (step op (b, h)))))) \<le> maxTransactions (config b)"
    using Cons.prems step_bound [of b op h] by (simp add: s)
  show ?case
    using Cons.IH [of "fst (step op (b, h))"] b step_config [of op b h]
    by (simp add: s case_prod_beta)
qed

text \<open>
  Changing \<open>tipAmount\<close> in the configuration changes nothing but that field of the
  accumulator's own configuration.
\<close>

lemma addTransaction_tip:
  "addTransaction tx (b\<lparr>config := (config b)\<lparr>tipAmount := t\<rparr>\<rparr>) =
     map_sum id (\<lambda>b'. b'\<lparr>config := (config b')\<lparr>tipAmount := t\<rparr>\<rparr>) (addTransaction tx b)"
  by (simp add: addTransaction_def)

lemma sendBundle_tip:
  "sendBundle ext poolId signer (b\<lparr>config := (config b)\<lparr>tipAmount := t\<rparr>\<rparr>) h =
     (sendBundle ext poolId signer b h)
       \<lparr>bundler := (bundler (sendBundle ext poolId signer b h))
          \<lparr>config := (config b)\<lparr>tipAmount := t\<rparr>\<rparr>\<rparr>"
  by (simp add: sendBundle_def Let_def enrichEach_tip split: sum.splits prod.splits option.splits)

lemma step_tip:
  "step op (b\<lparr>config := (config b)\<lparr>tipAmount := t\<rparr>\<rparr>, h) =
     (((fst (fst (step op (b, h))))\<lparr>config := (config b)\<lparr>tipAmount := t\<rparr>\<rparr>,
       snd (fst (step op (b, h)))),
      snd (step op (b, h)))"
proof (cases op)
  case (Append tx)
  show ?thesis
    by (simp add: Append addTransaction_def)
next
  case (Submit ext poolId signer)
  show ?thesis
    by (simp add: Submit Let_def sendBundle_tip)
next
  case Size
  show ?thesis by (simp add: Size getSize_def)
next
  case Reset
  show ?thesis by (simp add: Reset clear_def)
qed

lemma run_tip:
  "run ops (b\<lparr>config := (config b)\<lparr>tipAmount := t\<rparr>\<rparr>, h) =
     (((fst (fst (run ops (b, h))))\<lparr>config := (config b)\<lparr>tipAmount := t\<rparr>\<rparr>,
       snd (fst (run ops (b, h)))),
      snd (run ops (b, h)))"
proof (induction ops arbitrary: b h)
  case Nil
  show ?case by simp
next
  case (Cons op ops)
  have c: "config (fst (fst (step op (b, h)))) = config b"
    by (rule step_config)
  show ?case
    using Cons.IH [of "fst (fst (step op (b, h)))" "snd (fst (step op (b, h)))"]
    by (simp add: step_tip case_prod_beta c)
qed

text \<open>The enrichment of the two instruction-less example objects completes.\<close>

lemma twoBuffered_nonempty: "transactions twoBuffered \<noteq> []"
  by (simp add: twoBuffered_def)

lemma twoBuffered_enriched:
  "enrichEach (config twoBuffered) (transactions twoBuffered) exampleHeap =
     (fst (enrichEach (config twoBuffered) (transactions twoBuffered) exampleHeap), None)"
  by (simp add: example_defs enrich_defs)

lemma twoBuffered_first:
  "fst (enrichEach (config twoBuffered) (transactions twoBuffered) exampleHeap) 0 =
     \<lparr>message =
        \<lparr>staticAccountKeys = [''payer'', ''ComputeBudget111111111111111111111111111111''],
         recentBlockhash = ''hash0'',
         compiledInstructions =
           [MessageCompiledInstruction 1 [] (SetComputeUnitLimitData 300000),
            MessageCompiledInstruction 1 [] (SetComputeUnitPriceData 696969)]\<rparr>,
      signatures = [''sig'']\<rparr>"
  by (simp add: example_defs enrich_defs)

section \<open>The claims\<close>

text \<open>
  C5. Submitting while the buffer is empty (\<open>Size() = 0\<close>) fails with \<open>EmptyBundle\<close>:
  the accumulator and the heap are returned as they were and no external call is made.
\<close>

theorem submit_on_empty_buffer_fails:
  assumes "getSize b = 0"
  shows "sendBundle ext poolId signer b h =
           \<lparr>bundler = b, heap = h, outcome = Inl EmptyBundle, calls = []\<rparr> \<and>
         step (Submit ext poolId signer) (b, h) = ((b, h), Thrown EmptyBundle)"
  using assms by (simp add: sendBundle_def getSize_def)

theorem submit_on_empty_buffer_fails_witness:
  "getSize (constructor exampleConfig) = 0 \<and>
   outcome (sendBundle relayAccepts ''pool'' ''signer'' (constructor exampleConfig) exampleHeap)
     = Inl EmptyBundle \<and>
   calls (sendBundle relayAccepts ''pool'' ''signer'' (constructor exampleConfig) exampleHeap) = []"
proof -
  have e: "getSize (constructor exampleConfig) = 0"
    by (simp add: getSize_def constructor_def)
  show ?thesis
    using e submit_on_empty_buffer_fails [OF e, of relayAccepts "''pool''" "''signer''" exampleHeap]
    by simp
qed



text \<open>
  C6. When a submission succeeds, the buffer is empty afterwards (\<open>Size() = 0\<close>) and the
  caller receives exactly the identifier string that the external submission call returned.
\<close>

theorem successful_submit_clears_buffer:
  assumes "outcome (sendBundle ext poolId signer b h) = Inr uuid"
  shows "getSize (bundler (sendBundle ext poolId signer b h)) = 0 \<and>
         snd (step (Submit ext poolId signer) (b, h)) = ReturnedUuid uuid \<and>
         (\<exists>latestBlockhash.
            getLatestBlockhash ext = Inr latestBlockhash \<and>
            jitoSendBundle ext False latestBlockhash
              (heap (sendBundle ext poolId signer b h) (hd (transactions b))) poolId signer
              = Inr uuid)"
proof -
  from assms have ne: "transactions b \<noteq> []"
    by (auto simp: sendBundle_def)
  obtain h' stopped where en: "enrichEach (config b) (transactions b) h = (h', stopped)"
    by (cases "enrichEach (config b) (transactions b) h")
  from assms ne en have completed: "stopped = None"
    by (cases stopped) (simp_all add: sendBundle_def)
  from assms ne en completed obtain latestBlockhash
    where fetched: "getLatestBlockhash ext = Inr latestBlockhash"
    by (cases "getLatestBlockhash ext") (simp_all add: sendBundle_def)
  from sendBundle_relay_called [OF ne en [unfolded completed] fetched, of poolId signer]
  have "jitoSendBundle ext False latestBlockhash
          (heap (sendBundle ext poolId signer b h) (hd (transactions b))) poolId signer
          = Inr uuid"
    using assms by simp
  then show ?thesis
    using assms fetched sendBundle_succeeded [OF assms]
    by (simp add: getSize_def Let_def)
qed

theorem successful_submit_clears_buffer_witness:
  "outcome (sendBundle relayAccepts ''pool'' ''signer'' twoBuffered exampleHeap) = Inr ''uuid-1'' \<and>
   getSize (bundler (sendBundle relayAccepts ''pool'' ''signer'' twoBuffered exampleHeap)) = 0 \<and>
   snd (step (Submit relayAccepts ''pool'' ''signer'') (twoBuffered, exampleHeap))
     = ReturnedUuid ''uuid-1''"
proof -
  have ok: "outcome (sendBundle relayAccepts ''pool'' ''signer'' twoBuffered exampleHeap)
              = Inr ''uuid-1''"
    using sendBundle_relay_called
      [OF twoBuffered_nonempty twoBuffered_enriched, of relayAccepts "''hash1''" "''pool''"
          "''signer''"]
    by (simp add: relayAccepts_def)
  show ?thesis
    using ok successful_submit_clears_buffer [OF ok]
    by blast
qed

text \<open>
  C7. Starting from the empty buffer of a fresh accumulator, a sequence of appends whose
  count is at most the capacity succeeds as a whole, and \<open>Size()\<close> is then the number of
  appends made; \<open>Size()\<close> itself returns the length and leaves accumulator and heap as
  they were.
\<close>

theorem size_counts_appends:
  assumes "int (length txs) \<le> maxTransactions cfg"
  shows "(\<exists>b. appendAll txs (constructor cfg) = Inr b \<and> getSize b = length txs) \<and>
         step Size (b', h) = ((b', h), ReturnedSize (getSize b'))"
  using assms appendAll_within_capacity [of "constructor cfg" txs]
  by (simp add: constructor_def getSize_def)

theorem size_counts_appends_witness:
  "int (length [0, 1, 1 :: nat]) \<le> maxTransactions exampleConfig \<and>
   (\<exists>b. appendAll [0, 1, 1] (constructor exampleConfig) = Inr b \<and> getSize b = 3)"
proof -
  have le: "int (length [0, 1, 1 :: nat]) \<le> maxTransactions exampleConfig"
    by (simp add: exampleConfig_def)
  show ?thesis
    using le size_counts_appends [OF le, of twoBuffered exampleHeap]
    by (simp add: numeral_3_eq_3)
qed

text \<open>
  C8. No operation of the accumulator modifies the signatures of any transaction object:
  after one call of Append, Submit, Size or Reset, and after any sequence of such calls,
  every transaction (buffered or not) has the signatures it had before.
\<close>

theorem signatures_never_modified:
  "signatures (snd (fst (step op (b, h))) r) = signatures (h r) \<and>
   signatures (snd (fst (run ops (b, h))) r) = signatures (h r)"
  using step_signatures [of op b h r] run_signatures [of ops "(b, h)" r] by simp

theorem signatures_never_modified_witness:
  "signatures (snd (fst (step (Submit relayAccepts ''pool'' ''signer'') (twoBuffered, exampleHeap))) 0)
     = [''sig''] \<and>
   signatures (snd (fst (run [Append 1, Submit relayRejects ''pool'' ''signer'', Size, Reset]
                           (twoBuffered, exampleHeap))) 0)
     = [''sig'']"
  using signatures_never_modified
    [of "Submit relayAccepts ''pool'' ''signer''" twoBuffered exampleHeap 0
        "[Append 1, Submit relayRejects ''pool'' ''signer'', Size, Reset]"]
  by (simp add: exampleHeap_def exampleTransaction_def)

text \<open>
  C3. With a capacity that is not negative (the data model makes \<open>maxTransactions\<close> a
  positive integer), every state reachable from a fresh accumulator by any sequence of
  Append, Submit, Size and Reset calls has a buffer no longer than \<open>maxTransactions\<close>.
  An append on a buffer whose length equals or exceeds the capacity fails with
  \<open>CapacityExceeded\<close> and leaves accumulator and heap as they were, and every single
  operation preserves the bound and the configuration.
\<close>

theorem buffer_never_exceeds_capacity:
  "(0 \<le> maxTransactions cfg \<longrightarrow>
      int (getSize (fst (fst (run ops (constructor cfg, h))))) \<le> maxTransactions cfg) \<and>
   (maxTransactions (config b) \<le> int (getSize b) \<longrightarrow>
      addTransaction tx b = Inl (CapacityExceeded (maxTransactions (config b))) \<and>
      step (Append tx) (b, h) = ((b, h), Thrown (CapacityExceeded (maxTransactions (config b))))) \<and>
   (int (getSize b) \<le> maxTransactions (config b) \<longrightarrow>
      int (getSize (fst (fst (step op (b, h))))) \<le> maxTransactions (config b) \<and>
      config (fst (fst (step op (b, h)))) = config b)"
  using run_bound [of "(constructor cfg, h)" ops] step_bound [of b op h] step_config [of op b h]
  by (simp add: getSize_def constructor_def addTransaction_def)

theorem buffer_never_exceeds_capacity_witness:
  "0 \<le> maxTransactions exampleConfig \<and>
   int (getSize (fst (fst (run [Append 0, Append 1, Append 0, Append 1, Append 0]
                            (constructor exampleConfig, exampleHeap))))) \<le> 4 \<and>
   maxTransactions (config (sameTwice\<lparr>transactions := [0, 1, 0, 1]\<rparr>))
     \<le> int (getSize (sameTwice\<lparr>transactions := [0, 1, 0, 1]\<rparr>)) \<and>
   addTransaction 0 (sameTwice\<lparr>transactions := [0, 1, 0, 1]\<rparr>) = Inl (CapacityExceeded 4) \<and>
   int (getSize twoBuffered) \<le> maxTransactions (config twoBuffered) \<and>
   int (getSize (fst (fst (step (Append 1) (twoBuffered, exampleHeap))))) \<le> 4"
  using buffer_never_exceeds_capacity
    [of exampleConfig "[Append 0, Append 1, Append 0, Append 1, Append 0]" exampleHeap
        "sameTwice\<lparr>transactions := [0, 1, 0, 1]\<rparr>" 0 "Append 1"]
    buffer_never_exceeds_capacity
    [of exampleConfig "[]" exampleHeap twoBuffered 0 "Append 1"]
  by (simp add: exampleConfig_def sameTwice_def twoBuffered_def getSize_def)

text \<open>
  C9. The accumulator never reads \<open>tipAmount\<close>: for two configurations that differ only
  in \<open>tipAmount\<close>, every sequence of Append, Submit, Size and Reset calls yields the same
  observations, the same buffer and the same heap.
\<close>

theorem tipAmount_is_never_read:
  "snd (run ops (constructor (cfg\<lparr>tipAmount := t\<rparr>), h)) = snd (run ops (constructor cfg, h)) \<and>
   transactions (fst (fst (run ops (constructor (cfg\<lparr>tipAmount := t\<rparr>), h))))
     = transactions (fst (fst (run ops (constructor cfg, h)))) \<and>
   snd (fst (run ops (constructor (cfg\<lparr>tipAmount := t\<rparr>), h)))
     = snd (fst (run ops (constructor cfg, h)))"
  using run_tip [where ops = ops and b = "constructor cfg" and t = t and h = h]
  by (simp add: constructor_def)

theorem tipAmount_is_never_read_witness:
  "snd (run [Append 0, Append 1, Size, Submit relayAccepts ''pool'' ''signer'', Size]
          (constructor (exampleConfig\<lparr>tipAmount := 5\<rparr>), exampleHeap))
     = [Returned, Returned, ReturnedSize 2, ReturnedUuid ''uuid-1'', ReturnedSize 0]"
proof -
  have "snd (run [Append 0, Append 1, Size, Submit relayAccepts ''pool'' ''signer'', Size]
          (constructor exampleConfig, exampleHeap))
     = [Returned, Returned, ReturnedSize 2, ReturnedUuid ''uuid-1'', ReturnedSize 0]"
    by (simp add: constructor_def addTransaction_def getSize_def sendBundle_def Let_def
          example_defs enrich_defs)
  then show ?thesis
    using tipAmount_is_never_read
      [where ops = "[Append 0, Append 1, Size, Submit relayAccepts ''pool'' ''signer'', Size]"
         and cfg = exampleConfig and t = 5 and h = exampleHeap]
    by simp
qed

text \<open>
  C2, as stated, fails: when the relay rejects the bundle, the buffered transactions have
  already been enriched, so the instruction list of a buffered transaction after the
  failed submission differs from the one before it.
\<close>

theorem failed_submit_is_not_rolled_back_counterexample:
  "appendAll [0, 1] (constructor exampleConfig) = Inr twoBuffered \<and>
   outcome (sendBundle relayRejects ''pool'' ''signer'' twoBuffered exampleHeap)
     = Inl (ExternalFailure ''rejected'') \<and>
   compiledInstructions (message (exampleHeap 0)) = [] \<and>
   compiledInstructions
     (message (heap (sendBundle relayRejects ''pool'' ''signer'' twoBuffered exampleHeap) 0)) =
     [MessageCompiledInstruction 1 [] (SetComputeUnitLimitData 300000),
      MessageCompiledInstruction 1 [] (SetComputeUnitPriceData 696969)] \<and>
   heap (sendBundle relayRejects ''pool'' ''signer'' twoBuffered exampleHeap) \<noteq> exampleHeap"
proof -
  have a: "appendAll [0, 1] (constructor exampleConfig) = Inr twoBuffered"
    by (simp add: constructor_def addTransaction_def exampleConfig_def twoBuffered_def)
  have o: "outcome (sendBundle relayRejects ''pool'' ''signer'' twoBuffered exampleHeap)
             = Inl (ExternalFailure ''rejected'')"
    using sendBundle_relay_called
      [OF twoBuffered_nonempty twoBuffered_enriched, of relayRejects "''hash1''" "''pool''"
          "''signer''"]
    by (simp add: relayRejects_def)
  have i: "compiledInstructions
     (message (heap (sendBundle relayRejects ''pool'' ''signer'' twoBuffered exampleHeap) 0)) =
     [MessageCompiledInstruction 1 [] (SetComputeUnitLimitData 300000),
      MessageCompiledInstruction 1 [] (SetComputeUnitPriceData 696969)]"
    by (simp add: sendBundle_heap twoBuffered_first)
  have e: "compiledInstructions (message (exampleHeap 0)) = []"
    by (simp add: example_defs)
  have n: "heap (sendBundle relayRejects ''pool'' ''signer'' twoBuffered exampleHeap) \<noteq> exampleHeap"
    using i e by auto
  show ?thesis
    using a o i e n by simp
qed

text \<open>
  C2, amended. If the external submission call fails, the submission fails with that very
  failure after a single attempt: one block-hash fetch and one relay call. The accumulator
  is as before (same configuration, same buffer in the same order, same size). Every
  transaction keeps its signatures and recent-block reference, every buffered one its fee
  payer, and objects outside the buffer are untouched. The messages are not restored:
  the instruction list of every buffered transaction now begins with the two
  compute-budget instructions and differs from the list before the call.
\<close>

theorem failed_submit_propagates_and_keeps_buffer:
  assumes "transactions b \<noteq> []"
    and "enrichEach (config b) (transactions b) h = (h', None)"
    and "getLatestBlockhash ext = Inr latestBlockhash"
    and "jitoSendBundle ext False latestBlockhash (h' (hd (transactions b))) poolId signer
           = Inl e"
  shows "outcome (sendBundle ext poolId signer b h) = Inl e \<and>
         snd (step (Submit ext poolId signer) (b, h)) = Thrown e \<and>
         calls (sendBundle ext poolId signer b h) =
           [GetLatestBlockhashCall,
            SendBundleCall False latestBlockhash (hd (transactions b))
              (h' (hd (transactions b))) poolId signer] \<and>
         bundler (sendBundle ext poolId signer b h) = b \<and>
         heap (sendBundle ext poolId signer b h) = h' \<and>
         (\<forall>x. signatures (h' x) = signatures (h x) \<and>
              recentBlockhash (message (h' x)) = recentBlockhash (message (h x)) \<and>
              (x \<notin> set (transactions b) \<longrightarrow> h' x = h x)) \<and>
         (\<forall>x \<in> set (transactions b).
            payerOf (message (h' x)) = payerOf (message (h x)) \<and>
            map compiledData (take 2 (compiledInstructions (message (h' x)))) =
              [SetComputeUnitLimitData (computeUnits (config b)),
               SetComputeUnitPriceData (computeUnitPrice (config b))] \<and>
            compiledInstructions (message (h' x)) \<noteq> compiledInstructions (message (h x)))"
proof -
  note r = sendBundle_relay_called [OF assms(1-3), of poolId signer]
  have o: "outcome (sendBundle ext poolId signer b h) = Inl e"
    using r assms(4) by simp
  have frame: "signatures (h' x) = signatures (h x) \<and>
               recentBlockhash (message (h' x)) = recentBlockhash (message (h x)) \<and>
               (x \<notin> set (transactions b) \<longrightarrow> h' x = h x)" for x
    using enrichEach_signatures [of "config b" "transactions b" h x]
      enrichEach_blockhash [of "config b" "transactions b" h x]
      enrichEach_untouched [of x "transactions b" "config b" h] assms(2)
    by simp
  have enriched:
    "payerOf (message (h' x)) = payerOf (message (h x)) \<and>
     map compiledData (take 2 (compiledInstructions (message (h' x)))) =
       [SetComputeUnitLimitData (computeUnits (config b)),
        SetComputeUnitPriceData (computeUnitPrice (config b))] \<and>
     compiledInstructions (message (h' x)) \<noteq> compiledInstructions (message (h x))"
    if x: "x \<in> set (transactions b)" for x
  proof -
    from enrichEach_completed [OF assms(2)] x
    have c: "compiledInstructions (message (h x)) = []"
      "map compiledData (compiledInstructions (message (h' x))) =
          [SetComputeUnitLimitData (computeUnits (config b)),
           SetComputeUnitPriceData (computeUnitPrice (config b))]"
      "payerOf (message (h' x)) = payerOf (message (h x))"
      by simp_all
    from c(2) have "length (compiledInstructions (message (h' x))) = 2"
      using length_map [of compiledData "compiledInstructions (message (h' x))"] by simp
    then show ?thesis
      using c by auto
  qed
  show ?thesis
    using r o sendBundle_failed [OF o] frame enriched
    by (simp add: Let_def assms(4))
qed

theorem failed_submit_propagates_and_keeps_buffer_witness:
  "transactions twoBuffered \<noteq> [] \<and>
   getLatestBlockhash relayRejects = Inr ''hash1'' \<and>
   outcome (sendBundle relayRejects ''pool'' ''signer'' twoBuffered exampleHeap)
     = Inl (ExternalFailure ''rejected'') \<and>
   bundler (sendBundle relayRejects ''pool'' ''signer'' twoBuffered exampleHeap) = twoBuffered \<and>
   getSize (bundler (sendBundle relayRejects ''pool'' ''signer'' twoBuffered exampleHeap)) = 2"
proof -
  have g: "getLatestBlockhash relayRejects = Inr ''hash1''"
    by (simp add: relayRejects_def)
  have j: "jitoSendBundle relayRejects False ''hash1''
             (fst (enrichEach (config twoBuffered) (transactions twoBuffered) exampleHeap)
                (hd (transactions twoBuffered))) ''pool'' ''signer''
             = Inl (ExternalFailure ''rejected'')"
    by (simp add: relayRejects_def)
  show ?thesis
    using twoBuffered_nonempty g
      failed_submit_propagates_and_keeps_buffer [OF twoBuffered_nonempty twoBuffered_enriched g j]
    by (simp add: getSize_def twoBuffered_def)
qed

text \<open>
  C4 at a buffer holding one transaction that already carries an instruction. The
  enrichment hands the compiler the compiled instruction of the old message in the place
  of an instruction object, the compiler raises \<open>TypeError\<close>, and the submission ends
  there: nothing is prepended, the heap and the buffer are as before, and no external
  call is made.
\<close>

theorem submit_throws_on_carried_instruction:
  "appendAll [2] (constructor exampleConfig) = Inr oneCarrying \<and>
   compiledInstructions (message (exampleHeap 2)) =
     [MessageCompiledInstruction 1 [0] (OtherData 7)] \<and>
   sendBundle relayAccepts ''pool'' ''signer'' oneCarrying exampleHeap =
     \<lparr>bundler = oneCarrying, heap = exampleHeap, outcome = Inl TypeError, calls = []\<rparr>"
  by (simp add: sendBundle_def constructor_def addTransaction_def example_defs enrich_defs)

text \<open>
  C10 at a buffer of two distinct transactions that carry no instruction, with a relay
  that rejects the bundle. The first submission enriches both and fails at the relay. The
  second submission fails with \<open>TypeError\<close> in the enrichment of the first transaction,
  which now carries two compiled instructions; it makes no external call and prepends
  nothing, so after two failed submissions each transaction carries two compute-budget
  instructions, not four.
\<close>

theorem second_failed_submit_prepends_nothing:
  "outcome (sendBundle relayRejects ''pool'' ''signer'' twoBuffered exampleHeap)
     = Inl (ExternalFailure ''rejected'') \<and>
   compiledInstructions
     (message (heap (sendBundle relayRejects ''pool'' ''signer'' twoBuffered exampleHeap) 0)) =
     [MessageCompiledInstruction 1 [] (SetComputeUnitLimitData 300000),
      MessageCompiledInstruction 1 [] (SetComputeUnitPriceData 696969)] \<and>
   sendBundle relayRejects ''pool'' ''signer'' twoBuffered
     (heap (sendBundle relayRejects ''pool'' ''signer'' twoBuffered exampleHeap)) =
     \<lparr>bundler = twoBuffered,
      heap = heap (sendBundle relayRejects ''pool'' ''signer'' twoBuffered exampleHeap),
      outcome = Inl TypeError, calls = []\<rparr> \<and>
   failedSubmits [relayRejects, relayRejects] ''pool'' ''signer'' (twoBuffered, exampleHeap) =
     Some (twoBuffered,
           heap (sendBundle relayRejects ''pool'' ''signer'' twoBuffered exampleHeap))"
proof -
  let ?h1 = "heap (sendBundle relayRejects ''pool'' ''signer'' twoBuffered exampleHeap)"
  have o: "outcome (sendBundle relayRejects ''pool'' ''signer'' twoBuffered exampleHeap)
             = Inl (ExternalFailure ''rejected'')"
    using sendBundle_relay_called
      [OF twoBuffered_nonempty twoBuffered_enriched, of relayRejects "''hash1''" "''pool''"
          "''signer''"]
    by (simp add: relayRejects_def)
  have b1: "bundler (sendBundle relayRejects ''pool'' ''signer'' twoBuffered exampleHeap)
              = twoBuffered"
    by (rule sendBundle_failed [OF o])
  have i: "compiledInstructions (message (?h1 0)) =
     [MessageCompiledInstruction 1 [] (SetComputeUnitLimitData 300000),
      MessageCompiledInstruction 1 [] (SetComputeUnitPriceData 696969)]"
    by (simp add: sendBundle_heap twoBuffered_first)
  have t: "addComputeBudgetInstructions exampleConfig 0 ?h1 = Inl TypeError"
    using i
    by (simp add: addComputeBudgetInstructions_def computeBudgetIx_def setComputeUnitLimit_def
          setComputeUnitPrice_def exampleConfig_def compileToV0Message_def uncompiled_spread
          split: option.splits)
  have s2: "sendBundle relayRejects ''pool'' ''signer'' twoBuffered ?h1 =
     \<lparr>bundler = twoBuffered, heap = ?h1, outcome = Inl TypeError, calls = []\<rparr>"
    using t by (simp add: sendBundle_def twoBuffered_def)
  have f: "failedSubmits [relayRejects, relayRejects] ''pool'' ''signer''
             (twoBuffered, exampleHeap) = Some (twoBuffered, ?h1)"
    using o b1 s2 by (simp add: Let_def)
  show ?thesis
    using o i s2 f by simp
qed

end
